theory Spec2Isabelle
  imports Main "HOL-Library.Sublist"
begin

section \<open>Errors\<close>

text \<open>
  The exceptions that the modelled code raises, or lets through from pandas, numpy and
  the model objects it drives. \<open>OtherError\<close> carries the message of an exception raised
  by an external collaborator (an estimator, a metric, the split generator).
\<close>

datatype py_error =
    KeyError
  | ValueError
  | IndexError
  | TypeError
  | AttributeError
  | UnboundLocalError
  | ZeroDivisionError
  | OtherError string

section \<open>helpers/Scopes.py\<close>

text \<open>
  A scope, a target key and a metric specification are each either one string or a list
  of strings.
\<close>

datatype str_or_list = Str string | Lst "string list"

text \<open>
  Modelled from the spec: \<open>conv_to_list\<close> of helpers/ML_Helpers.py is not among the sources.
  Its name and its uses (\<open>self.strat_keys + conv_to_list(targets_key)\<close>,
  \<open>for key in conv_to_list(scope)\<close>) fix what it does on the two shapes above: a single
  value becomes the one-element list, a list is returned as it is.
\<close>

fun conv_to_list :: "str_or_list \<Rightarrow> string list" where
  "conv_to_list (Str s) = [s]"
| "conv_to_list (Lst xs) = xs"









text \<open>
  \<open>list(set(keys))\<close> keeps one copy of every key, in the iteration order of a Python
  set, which the language leaves open. The model fixes one such order (\<open>remdups\<close>);
  the theorems below use only that the result has the same elements and no repeats.
\<close>

definition list_of_set :: "'a list \<Rightarrow> 'a list" where
  "list_of_set keys = remdups keys"





section \<open>pandas and numpy values used by pipeline/Model_Pipeline.py\<close>

text \<open>
  A numpy array of rank 1, 2 or 3. A rank-2 array carries its number of columns, which
  an array with no rows still has (\<open>np.shape(a)[1]\<close>); its rows are lists of that
  length. A rank-3 array is the list of its rank-2 planes, as \<open>predict_proba\<close> of a
  multilabel model returns it.
\<close>

datatype 'v ndarray =
    Arr1 "'v list"
  | Arr2 nat "'v list list"
  | Arr3 "'v list list list"

fun rank :: "'v ndarray \<Rightarrow> nat" where
  "rank (Arr1 xs) = 1"
| "rank (Arr2 n rows) = 2"
| "rank (Arr3 planes) = 3"

fun flat :: "'v ndarray \<Rightarrow> 'v list" where
  "flat (Arr1 xs) = xs"
| "flat (Arr2 n rows) = concat rows"
| "flat (Arr3 planes) = concat (concat planes)"

text \<open>\<open>np.unique\<close>: the sorted distinct values of the flattened array.\<close>

definition np_unique :: "('v::linorder) ndarray \<Rightarrow> 'v list" where
  "np_unique y = sort (remdups (flat y))"

text \<open>
  The data table: a pandas DataFrame with its column labels and its rows, each row the
  index label (a subject) and one value per column.
\<close>

record ('s, 'v) frame =
  f_columns :: "string list"
  f_rows :: "('s \<times> 'v list) list"

definition f_index :: "('s, 'v) frame \<Rightarrow> 's list" where
  "f_index df = map fst (f_rows df)"

text \<open>The values of a row under the columns labelled \<open>k\<close>.\<close>

definition row_values :: "string list \<Rightarrow> 'v list \<Rightarrow> string \<Rightarrow> 'v list" where
  "row_values cols vs k = map snd (filter (\<lambda>cv. fst cv = k) (zip cols vs))"

text \<open>\<open>data[keys]\<close> with a list of labels: a new frame; a label that is no column raises.\<close>

definition getitem_cols :: "('s, 'v) frame \<Rightarrow> string list \<Rightarrow> py_error + ('s, 'v) frame" where
  "getitem_cols df keys =
     (if \<not> set keys \<subseteq> set (f_columns df) then Inl KeyError
      else Inr \<lparr>f_columns = concat (map (\<lambda>k. filter (\<lambda>c. c = k) (f_columns df)) keys),
                f_rows = map (\<lambda>(s, vs). (s, concat (map (row_values (f_columns df) vs) keys)))
                           (f_rows df)\<rparr>)"

text \<open>
  \<open>data.loc[subjects]\<close> with an array of labels: the rows of each label, in the order
  of the labels; a label that is not in the index raises (pandas from 1.0 on).
\<close>

definition loc_rows :: "('s, 'v) frame \<Rightarrow> 's list \<Rightarrow> py_error + ('s, 'v) frame" where
  "loc_rows df subjects =
     (if \<not> set subjects \<subseteq> set (f_index df) then Inl KeyError
      else Inr (df\<lparr>f_rows := concat (map (\<lambda>s. filter (\<lambda>r. fst r = s) (f_rows df)) subjects)\<rparr>))"

text \<open>\<open>data.drop(target, axis=1)\<close>: a new frame without the target column(s).\<close>

definition drop_cols :: "('s, 'v) frame \<Rightarrow> str_or_list \<Rightarrow> py_error + ('s, 'v) frame" where
  "drop_cols df target =
     (if \<not> set (conv_to_list target) \<subseteq> set (f_columns df) then Inl KeyError
      else Inr \<lparr>f_columns = filter (\<lambda>c. c \<notin> set (conv_to_list target)) (f_columns df),
                f_rows = map (\<lambda>(s, vs). (s, map snd (filter
                             (\<lambda>cv. fst cv \<notin> set (conv_to_list target)) (zip (f_columns df) vs))))
                           (f_rows df)\<rparr>)"

text \<open>\<open>np.array(df)\<close>: the rank-2 array of the frame's values.\<close>

definition frame_values :: "('s, 'v) frame \<Rightarrow> 'v ndarray" where
  "frame_values df = Arr2 (length (f_columns df)) (map snd (f_rows df))"

text \<open>
  \<open>np.array(data[target])\<close>: a string that labels one column selects a Series (rank 1);
  a list of labels, or a string that labels several columns, selects a DataFrame (rank 2).
\<close>

definition target_values :: "('s, 'v) frame \<Rightarrow> str_or_list \<Rightarrow> py_error + 'v ndarray" where
  "target_values df target =
     (case target of
        Str t \<Rightarrow>
          if t \<notin> set (f_columns df) then Inl KeyError
          else if length (filter (\<lambda>c. c = t) (f_columns df)) = 1
          then Inr (Arr1 (concat (map (\<lambda>(s, vs). row_values (f_columns df) vs t) (f_rows df))))
          else (case getitem_cols df [t] of Inl e \<Rightarrow> Inl e | Inr d \<Rightarrow> Inr (frame_values d))
      | Lst ts \<Rightarrow>
          (case getitem_cols df ts of Inl e \<Rightarrow> Inl e | Inr d \<Rightarrow> Inr (frame_values d)))"

text \<open>
  The raw-prediction table \<open>raw_preds_df\<close>: its index, its columns in the order of
  their creation and its cells. A cell holds a number or a fold tag; a cell that was
  never written is NaN (\<open>None\<close>). Cells are written by label, latest write first.
\<close>

datatype 'v cell = Num 'v | Tag string

record ('s, 'v) ledger =
  l_index :: "'s list"
  l_columns :: "string list"
  l_cells :: "(('s \<times> string) \<times> 'v cell) list"

definition cell_at :: "('s, 'v) ledger \<Rightarrow> 's \<Rightarrow> string \<Rightarrow> 'v cell option" where
  "cell_at df s col = map_of (l_cells df) (s, col)"

text \<open>
  \<open>df.loc[subjects, col] = values\<close> with one value per subject: a label that is not in
  the index raises \<open>KeyError\<close>, a wrong number of values \<open>ValueError\<close>; a new column
  is appended.
\<close>

definition loc_set ::
  "('s, 'v) ledger \<Rightarrow> 's list \<Rightarrow> string \<Rightarrow> 'v cell list \<Rightarrow> py_error + ('s, 'v) ledger" where
  "loc_set df subjects col vals =
     (if \<not> set subjects \<subseteq> set (l_index df) then Inl KeyError
      else if length vals \<noteq> length subjects then Inl ValueError
      else Inr (df\<lparr>l_columns := (if col \<in> set (l_columns df) then l_columns df
                                   else l_columns df @ [col]),
                   l_cells := rev (zip (map (\<lambda>s. (s, col)) subjects) vals) @ l_cells df\<rparr>))"

text \<open>\<open>df.loc[subjects, col] = value\<close> with a scalar, which is broadcast.\<close>

definition loc_set_scalar ::
  "('s, 'v) ledger \<Rightarrow> 's list \<Rightarrow> string \<Rightarrow> 'v cell \<Rightarrow> py_error + ('s, 'v) ledger" where
  "loc_set_scalar df subjects col v = loc_set df subjects col (replicate (length subjects) v)"

subsection \<open>\<open>str\<close> of integers, \<open>split\<close> and \<open>join\<close>\<close>

definition digit_char :: "nat \<Rightarrow> char" where
  "digit_char d =
     (if d = 0 then CHR ''0'' else if d = 1 then CHR ''1'' else if d = 2 then CHR ''2''
      else if d = 3 then CHR ''3'' else if d = 4 then CHR ''4'' else if d = 5 then CHR ''5''
      else if d = 6 then CHR ''6'' else if d = 7 then CHR ''7'' else if d = 8 then CHR ''8''
      else CHR ''9'')"

function str_nat :: "nat \<Rightarrow> string" where
  "str_nat n = (if n < 10 then [digit_char n] else str_nat (n div 10) @ [digit_char (n mod 10)])"
  by pat_completeness auto
termination
  by (relation "measure (\<lambda>n. n)") auto

definition str_int :: "int \<Rightarrow> string" where
  "str_int i = (if i < 0 then CHR ''-'' # str_nat (nat (- i)) else str_nat (nat i))"

text \<open>\<open>s.split(c)\<close>, with the segment being read as an accumulator.\<close>

fun split_on :: "char \<Rightarrow> string \<Rightarrow> string \<Rightarrow> string list" where
  "split_on c seg [] = [seg]"
| "split_on c seg (x # xs) = (if x = c then seg # split_on c [] xs else split_on c (seg @ [x]) xs)"

fun join :: "string \<Rightarrow> string list \<Rightarrow> string" where
  "join sep [] = []"
| "join sep [x] = x"
| "join sep (x # y # ys) = x @ sep @ join sep (y # ys)"

section \<open>pipeline/Model_Pipeline.py\<close>

text \<open>
  \<open>fold_ind\<close> is an integer inside \<open>Evaluate\<close> and the string \<open>'test'\<close>, the
  default, in a direct call of \<open>Test\<close>.
\<close>

datatype fold_ind = FinalTest | Fold nat

text \<open>
  A class label of \<open>self.classes\<close>: an element of \<open>np.unique(y_test)\<close>, a float, or
  an element of the integer array \<open>np.array([0, 1])\<close>.
\<close>

datatype 'v class_label = FloatClass 'v | IntClass int

text \<open>
  The train-side scores of a fold: the array of scores, or the integer \<open>0\<close> that
  \<open>Test\<close> assigns when train scores are not computed.
\<close>

datatype 'v train_scores = Zero | ScoreArray "'v list"

text \<open>
  The attributes of a \<open>Model_Pipeline\<close> object that the modelled methods read or write.
  \<open>ps_final_subjects\<close> and \<open>ps_target\<close> are \<open>self.ps._final_subjects\<close> and
  \<open>self.ps.target\<close>; \<open>mp_all_keys\<close> is \<open>self.all_keys\<close> and \<open>n_splits\<close> is
  \<open>self.n_splits_\<close>. A metric is a callable
  \<open>metric(model, X, y)\<close>. Printing and the progress bars are left out.
\<close>

type_synonym ('m, 'v) metric = "'m \<Rightarrow> 'v ndarray \<Rightarrow> 'v ndarray \<Rightarrow> py_error + 'v"

record ('s, 'v, 'm, 'fi) Model_Pipeline =
  ps_final_subjects :: "'s list option"
  ps_target :: str_or_list
  compute_train_score :: bool
  mp_all_keys :: "string list"
  metric_strs :: "string list"
  metrics :: "('m, 'v) metric list"
  feat_importances :: "'fi list"
  n_splits :: "nat option"
  n_test_per_fold :: "nat list"
  raw_preds_df :: "('s, 'v) ledger"
  classes :: "'v class_label list"
  Model :: "'m option"

text \<open>
  The collaborators whose code is not among the sources, as parameters: the base
  pipeline and its search wrapper, the estimator's \<open>fit\<close>, \<open>predict\<close> and
  \<open>predict_proba\<close>, the split generator \<open>CV\<close>, the feature-importance objects, the
  metric table (\<open>proc_type_dep_str\<close>, \<open>get_metric\<close>) and \<open>str\<close> of a float. Each
  one but the last may raise.
  \<^item> \<open>search_wrapped_pipeline\<close> stands for the search branch of \<open>_get_final_model\<close>
    (\<open>_get_search_cv\<close> on the index of the training data, \<open>_get_score_metric\<close>,
    \<open>get_search_wrapped_pipeline\<close>).
  \<^item> \<open>show_best_params\<close> stands for \<open>_show_best_params\<close>, which only prints;
    \<open>None\<close> is a normal return.
  \<^item> \<open>proc_importances\<close> stands for the body of \<open>_proc_feat_importance\<close> when there
    is a feature importance to process; it returns the updated objects.
\<close>

record ('s, 'v, 'm, 'fi, 'g) collaborators =
  is_search :: bool
  search_wrapped_pipeline :: "'s list \<Rightarrow> py_error + 'm"
  fit :: "'m \<Rightarrow> 'v ndarray \<Rightarrow> 'v ndarray \<Rightarrow> py_error + 'm"
  show_best_params :: "'m \<Rightarrow> py_error option"
  predict_proba :: "'m \<Rightarrow> 'v ndarray \<Rightarrow> py_error + 'v ndarray"
  predict :: "'m \<Rightarrow> 'v ndarray \<Rightarrow> py_error + 'v ndarray"
  proc_importances ::
    "'fi list \<Rightarrow> 'm \<Rightarrow> ('s, 'v) frame \<Rightarrow> ('s, 'v) frame \<Rightarrow> fold_ind \<Rightarrow> py_error + 'fi list"
  set_final_local :: "'fi \<Rightarrow> py_error + 'fi"
  repeated_k_fold :: "'s list \<Rightarrow> nat \<Rightarrow> nat \<Rightarrow> py_error + ('s list \<times> 's list) list"
  get_num_groups :: "'s list \<Rightarrow> 'g \<Rightarrow> py_error + nat"
  repeated_leave_one_group_out ::
    "'s list \<Rightarrow> nat \<Rightarrow> 'g \<Rightarrow> py_error + ('s list \<times> 's list) list"
  proc_type_dep_str :: "string list \<Rightarrow> py_error + string list"
  get_metric :: "string \<Rightarrow> py_error + ('m, 'v) metric"
  str_float :: "'v \<Rightarrow> string"

subsection \<open>\<open>_process_metrics\<close>\<close>

text \<open>The list comprehension \<open>[get_metric(metric_str) for metric_str in metric_strs]\<close>.\<close>

fun get_metrics ::
  "('s, 'v, 'm, 'fi, 'g) collaborators \<Rightarrow> string list \<Rightarrow> py_error + ('m, 'v) metric list" where
  "get_metrics env [] = Inr []"
| "get_metrics env (metric_str # rest) =
     (case get_metric env metric_str of
        Inl e \<Rightarrow> Inl e
      | Inr metric \<Rightarrow>
          (case get_metrics env rest of
             Inl e \<Rightarrow> Inl e
           | Inr ms \<Rightarrow> Inr (metric # ms)))"

text \<open>\<open>metrics[0]\<close> raises \<open>IndexError\<close> on an empty list of metrics.\<close>

definition process_metrics ::
  "('s, 'v, 'm, 'fi, 'g) collaborators \<Rightarrow> str_or_list
     \<Rightarrow> py_error + string list \<times> ('m, 'v) metric list \<times> ('m, 'v) metric" where
  "process_metrics env in_metrics =
     (case proc_type_dep_str env (conv_to_list in_metrics) of
        Inl e \<Rightarrow> Inl e
      | Inr strs \<Rightarrow>
          (case get_metrics env strs of
             Inl e \<Rightarrow> Inl e
           | Inr ms \<Rightarrow>
               (case ms of
                  [] \<Rightarrow> Inl IndexError
                | metric # _ \<Rightarrow> Inr (strs, ms, metric))))"

subsection \<open>\<open>_process_feat_importances\<close>\<close>

text \<open>
  The argument is \<open>pipeline_params.feat_importances.obj\<close>: \<open>None\<close>, a name or a list
  of names. \<open>conv_to_list\<close> maps \<open>None\<close> to \<open>None\<close>. Both branches return the empty
  list; the code that would build the objects is inside a string literal.
\<close>

definition process_feat_importances :: "str_or_list option \<Rightarrow> 'fi list" where
  "process_feat_importances obj =
     (case map_option conv_to_list obj of
        Some names \<Rightarrow> []
      | None \<Rightarrow> [])"

subsection \<open>\<open>_get_subjects_overlap\<close>\<close>

text \<open>
  \<open>np.array(list(overlap))\<close> of the set \<open>overlap\<close>: every subject once, in the set's
  iteration order (see \<open>list_of_set\<close>).
\<close>

definition get_subjects_overlap ::
  "('s, 'v, 'm, 'fi) Model_Pipeline \<Rightarrow> 's list \<Rightarrow> 's list" where
  "get_subjects_overlap self subjects =
     (case ps_final_subjects self of
        None \<Rightarrow> list_of_set subjects
      | Some final_subjects \<Rightarrow>
          list_of_set [s \<leftarrow> subjects. s \<in> set final_subjects])"

subsection \<open>\<open>_init_raw_preds_df\<close>\<close>

definition init_raw_preds_df ::
  "('s, 'v, 'm, 'fi) Model_Pipeline \<Rightarrow> 's list \<Rightarrow> ('s, 'v, 'm, 'fi) Model_Pipeline" where
  "init_raw_preds_df self subjects =
     self\<lparr>raw_preds_df := \<lparr>l_index = subjects, l_columns = [], l_cells = []\<rparr>\<rparr>"

subsection \<open>\<open>_get_X_y\<close>\<close>

text \<open>
  With \<open>X_as_df=False\<close>, as \<open>_train_model\<close> and \<open>_get_scores\<close> call it. The values
  are floats already, so \<open>astype(float)\<close> changes nothing.
\<close>

definition get_X_y ::
  "('s, 'v, 'm, 'fi) Model_Pipeline \<Rightarrow> ('s, 'v) frame \<Rightarrow> py_error + 'v ndarray \<times> 'v ndarray" where
  "get_X_y self data =
     (case drop_cols data (ps_target self) of
        Inl e \<Rightarrow> Inl e
      | Inr X \<Rightarrow>
          (case target_values data (ps_target self) of
             Inl e \<Rightarrow> Inl e
           | Inr y \<Rightarrow> Inr (frame_values X, y)))"

subsection \<open>\<open>_get_final_model\<close> and \<open>_train_model\<close>\<close>

text \<open>
  Without a parameter search, \<open>weight_search_metric\<close> is not bound when it is passed to
  \<open>get_search_wrapped_pipeline\<close>, which raises \<open>UnboundLocalError\<close>.
\<close>

definition get_final_model ::
  "('s, 'v, 'm, 'fi, 'g) collaborators \<Rightarrow> ('s, 'v) frame \<Rightarrow> py_error + 'm" where
  "get_final_model env train_data =
     (if is_search env then search_wrapped_pipeline env (f_index train_data)
      else Inl UnboundLocalError)"

definition train_model ::
  "('s, 'v, 'm, 'fi, 'g) collaborators \<Rightarrow> ('s, 'v, 'm, 'fi) Model_Pipeline \<Rightarrow> ('s, 'v) frame
     \<Rightarrow> py_error + ('s, 'v, 'm, 'fi) Model_Pipeline" where
  "train_model env self train_data =
     (case get_X_y self train_data of
        Inl e \<Rightarrow> Inl e
      | Inr (X, y) \<Rightarrow>
          (case Model self of
             None \<Rightarrow> Inl AttributeError
           | Some model \<Rightarrow>
               (case fit env model X y of
                  Inl e \<Rightarrow> Inl e
                | Inr fitted \<Rightarrow>
                    (case show_best_params env fitted of
                       Some e \<Rightarrow> Inl e
                     | None \<Rightarrow> Inr (self\<lparr>Model := Some fitted\<rparr>)))))"

subsection \<open>\<open>_proc_feat_importance\<close>\<close>

definition proc_feat_importance ::
  "('s, 'v, 'm, 'fi, 'g) collaborators \<Rightarrow> ('s, 'v, 'm, 'fi) Model_Pipeline \<Rightarrow> ('s, 'v) frame
     \<Rightarrow> ('s, 'v) frame \<Rightarrow> fold_ind \<Rightarrow> py_error + ('s, 'v, 'm, 'fi) Model_Pipeline" where
  "proc_feat_importance env self train_data test_data fold_ind =
     (if length (feat_importances self) > 0 then
        (case Model self of
           None \<Rightarrow> Inl AttributeError
         | Some model \<Rightarrow>
             (case proc_importances env (feat_importances self) model train_data test_data
                     fold_ind of
                Inl e \<Rightarrow> Inl e
              | Inr fis \<Rightarrow> Inr (self\<lparr>feat_importances := fis\<rparr>)))
      else Inr self)"

subsection \<open>\<open>_add_raw_preds\<close>\<close>

text \<open>
  The strings \<open>fold\<close> (here \<open>fold_str\<close>) and \<open>repeat\<close>. On an integer fold index, \<open>self.n_splits_\<close> that
  is still \<open>None\<close> raises \<open>TypeError\<close> and one that is zero \<open>ZeroDivisionError\<close>.
\<close>

definition fold_and_repeat ::
  "('s, 'v, 'm, 'fi) Model_Pipeline \<Rightarrow> fold_ind \<Rightarrow> py_error + string \<times> string" where
  "fold_and_repeat self fold_ind =
     (case fold_ind of
        FinalTest \<Rightarrow> Inr (''test'', [])
      | Fold k \<Rightarrow>
          (case n_splits self of
             None \<Rightarrow> Inl TypeError
           | Some n \<Rightarrow>
               if n = 0 then Inl ZeroDivisionError
               else Inr (str_nat ((k mod n) + 1), str_nat ((k div n) + 1))))"

text \<open>
  \<open>self.classes\<close>: the distinct values of \<open>y_test\<close>, replaced by \<open>[0, 1]\<close> when
  there is exactly one.
\<close>

definition observed_classes :: "('v::linorder) ndarray \<Rightarrow> 'v class_label list" where
  "observed_classes y_test =
     (if length (np_unique y_test) = 1 then [IntClass 0, IntClass 1]
      else map FloatClass (np_unique y_test))"

definition str_class ::
  "('s, 'v, 'm, 'fi, 'g) collaborators \<Rightarrow> 'v class_label \<Rightarrow> string" where
  "str_class env c = (case c of FloatClass v \<Rightarrow> str_float env v | IntClass i \<Rightarrow> str_int i)"

text \<open>
  The loops \<open>for i in range(...)\<close> that write one column per class: the \<open>i\<close>-th
  column is named after \<open>self.classes[i]\<close>, which raises \<open>IndexError\<close> when there
  are fewer classes; computing the column's values may raise too.
\<close>

fun set_class_columns ::
  "('s, 'v, 'm, 'fi, 'g) collaborators \<Rightarrow> 'v class_label list \<Rightarrow> 's list \<Rightarrow> string \<Rightarrow> nat
     \<Rightarrow> (py_error + 'v list) list \<Rightarrow> ('s, 'v) ledger \<Rightarrow> py_error + ('s, 'v) ledger" where
  "set_class_columns env cls subjects pred_col i [] df = Inr df"
| "set_class_columns env cls subjects pred_col i (class_preds # rest) df =
     (if i \<ge> length cls then Inl IndexError
      else
        (case class_preds of
           Inl e \<Rightarrow> Inl e
         | Inr vals \<Rightarrow>
             (case loc_set df subjects (pred_col @ ''_class_'' @ str_class env (cls ! i))
                     (map Num vals) of
                Inl e \<Rightarrow> Inl e
              | Inr df' \<Rightarrow> set_class_columns env cls subjects pred_col (Suc i) rest df')))"

text \<open>\<open>a[:, i]\<close> for every column \<open>i\<close> of a rank-2 array.\<close>

definition columns_of :: "nat \<Rightarrow> 'v list list \<Rightarrow> (py_error + 'v list) list" where
  "columns_of n rows = map (\<lambda>i. Inr (map (\<lambda>r. r ! i) rows)) [0..<n]"

text \<open>\<open>[val[1] for val in plane]\<close> for every plane of a rank-3 array.\<close>

definition positive_class_of :: "'v list list list \<Rightarrow> (py_error + 'v list) list" where
  "positive_class_of planes =
     map (\<lambda>plane. if list_all (\<lambda>val. length val > 1) plane
                   then Inr (map (\<lambda>val. val ! 1) plane) else Inl IndexError) planes"

text \<open>
  The \<open>try\<close> block around \<open>predict_proba\<close>: an \<open>AttributeError\<close> is swallowed, any
  other exception goes on.
\<close>

definition add_prob_preds ::
  "('s, 'v, 'm, 'fi, 'g) collaborators \<Rightarrow> ('s, 'v, 'm, 'fi) Model_Pipeline \<Rightarrow> 'v ndarray
     \<Rightarrow> 's list \<Rightarrow> string \<Rightarrow> py_error + ('s, 'v) ledger" where
  "add_prob_preds env self X_test subjects pred_col =
     (case Model self of
        None \<Rightarrow> Inr (raw_preds_df self)
      | Some model \<Rightarrow>
          (case predict_proba env model X_test of
             Inl e \<Rightarrow> if e = AttributeError then Inr (raw_preds_df self) else Inl e
           | Inr raw_prob_preds \<Rightarrow>
               (case raw_prob_preds of
                  Arr3 planes \<Rightarrow>
                    set_class_columns env (classes self) subjects pred_col 0
                      (positive_class_of planes) (raw_preds_df self)
                | Arr2 n rows \<Rightarrow>
                    set_class_columns env (classes self) subjects pred_col 0
                      (columns_of n rows) (raw_preds_df self)
                | Arr1 vals \<Rightarrow>
                    loc_set (raw_preds_df self) subjects pred_col (map Num vals))))"

definition add_point_preds ::
  "('s, 'v, 'm, 'fi, 'g) collaborators \<Rightarrow> ('s, 'v, 'm, 'fi) Model_Pipeline \<Rightarrow> 'v ndarray
     \<Rightarrow> 's list \<Rightarrow> string \<Rightarrow> py_error + ('s, 'v) ledger" where
  "add_point_preds env self X_test subjects pred_col =
     (case Model self of
        None \<Rightarrow> Inl AttributeError
      | Some model \<Rightarrow>
          (case predict env model X_test of
             Inl e \<Rightarrow> Inl e
           | Inr raw_preds \<Rightarrow>
               (case raw_preds of
                  Arr2 n rows \<Rightarrow>
                    set_class_columns env (classes self) subjects pred_col 0
                      (columns_of n rows) (raw_preds_df self)
                | Arr1 vals \<Rightarrow>
                    loc_set (raw_preds_df self) subjects pred_col (map Num vals)
                | Arr3 planes \<Rightarrow> Inl ValueError)))"

text \<open>\<open>'_'.join(s.split('_')[:-1])\<close>\<close>

definition t_base_key :: "string \<Rightarrow> string" where
  "t_base_key s = join ''_'' (butlast (split_on CHR ''_'' [] s))"

text \<open>
  The copy of the true values. Under a rank-2 \<open>y_test\<close> the loop runs over
  \<open>range(len(self.ps.target))\<close> and names the columns \<open>self.ps.target[i]\<close>, which for
  a string are its characters.
\<close>

definition target_items :: "str_or_list \<Rightarrow> string list" where
  "target_items target = (case target of Str t \<Rightarrow> map (\<lambda>c. [c]) t | Lst ts \<Rightarrow> ts)"

fun set_true_columns ::
  "'s list \<Rightarrow> string list \<Rightarrow> nat \<Rightarrow> nat \<Rightarrow> 'v list list \<Rightarrow> ('s, 'v) ledger
     \<Rightarrow> py_error + ('s, 'v) ledger" where
  "set_true_columns subjects [] i n rows df = Inr df"
| "set_true_columns subjects (t # ts) i n rows df =
     (if i \<ge> n then Inl IndexError
      else
        (case loc_set df subjects t (map (\<lambda>r. Num (r ! i)) rows) of
           Inl e \<Rightarrow> Inl e
         | Inr df' \<Rightarrow> set_true_columns subjects ts (Suc i) n rows df'))"

definition add_true_values ::
  "('s, 'v, 'm, 'fi) Model_Pipeline \<Rightarrow> 'v ndarray \<Rightarrow> 's list \<Rightarrow> ('s, 'v) ledger
     \<Rightarrow> py_error + ('s, 'v) ledger" where
  "add_true_values self y_test subjects df =
     (case y_test of
        Arr2 n rows \<Rightarrow> set_true_columns subjects (target_items (ps_target self)) 0 n rows df
      | Arr3 planes \<Rightarrow> Inl ValueError
      | Arr1 vals \<Rightarrow>
          (case ps_target self of
             Lst ts \<Rightarrow>
               (case ts of
                  [] \<Rightarrow> Inl IndexError
                | t # _ \<Rightarrow> loc_set df subjects (''multiclass_'' @ t_base_key t) (map Num vals))
           | Str t \<Rightarrow> loc_set df subjects t (map Num vals)))"

text \<open>The names of the columns that the copy of the true values writes.\<close>

definition true_value_columns ::
  "('s, 'v, 'm, 'fi) Model_Pipeline \<Rightarrow> 'v ndarray \<Rightarrow> string set" where
  "true_value_columns self y_test =
     (case y_test of
        Arr2 n rows \<Rightarrow> set (target_items (ps_target self))
      | Arr3 planes \<Rightarrow> {}
      | Arr1 vals \<Rightarrow>
          (case ps_target self of
             Lst ts \<Rightarrow> (case ts of [] \<Rightarrow> {} | t # _ \<Rightarrow> {''multiclass_'' @ t_base_key t})
           | Str t \<Rightarrow> {t}))"

text \<open>
  The ledger right after the statement that writes the fold tag (the line
  \<open>self.raw_preds_df.loc[subjects, pred_col + '_fold'] = fold\<close>), with \<open>self.classes\<close>
  set.
\<close>

definition add_raw_preds_to_fold_tag ::
  "('s, 'v::linorder, 'm, 'fi, 'g) collaborators \<Rightarrow> ('s, 'v, 'm, 'fi) Model_Pipeline
     \<Rightarrow> 'v ndarray \<Rightarrow> 'v ndarray \<Rightarrow> 's list \<Rightarrow> string \<Rightarrow> fold_ind
     \<Rightarrow> py_error + ('s, 'v, 'm, 'fi) Model_Pipeline" where
  "add_raw_preds_to_fold_tag env self X_test y_test subjects eval_type fold_ind =
     (case fold_and_repeat self fold_ind of
        Inl e \<Rightarrow> Inl e
      | Inr (fold_str, repeat) \<Rightarrow>
          (let self1 = self\<lparr>classes := observed_classes y_test\<rparr> in
           case add_prob_preds env self1 X_test subjects (eval_type @ repeat @ ''_prob'') of
             Inl e \<Rightarrow> Inl e
           | Inr df1 \<Rightarrow>
               (let self2 = self1\<lparr>raw_preds_df := df1\<rparr> in
                case add_point_preds env self2 X_test subjects (eval_type @ repeat) of
                  Inl e \<Rightarrow> Inl e
                | Inr df2 \<Rightarrow>
                    (case loc_set_scalar df2 subjects (eval_type @ repeat @ ''_fold'')
                            (Tag fold_str) of
                       Inl e \<Rightarrow> Inl e
                     | Inr df3 \<Rightarrow> Inr (self2\<lparr>raw_preds_df := df3\<rparr>)))))"

definition add_raw_preds ::
  "('s, 'v::linorder, 'm, 'fi, 'g) collaborators \<Rightarrow> ('s, 'v, 'm, 'fi) Model_Pipeline
     \<Rightarrow> 'v ndarray \<Rightarrow> 'v ndarray \<Rightarrow> 's list \<Rightarrow> string \<Rightarrow> fold_ind
     \<Rightarrow> py_error + ('s, 'v, 'm, 'fi) Model_Pipeline" where
  "add_raw_preds env self X_test y_test subjects eval_type fold_ind =
     (case add_raw_preds_to_fold_tag env self X_test y_test subjects eval_type fold_ind of
        Inl e \<Rightarrow> Inl e
      | Inr self3 \<Rightarrow>
          (case add_true_values self3 y_test subjects (raw_preds_df self3) of
             Inl e \<Rightarrow> Inl e
           | Inr df4 \<Rightarrow> Inr (self3\<lparr>raw_preds_df := df4\<rparr>)))"

subsection \<open>\<open>_get_scores\<close>\<close>

text \<open>
  The list comprehension \<open>[metric(self.Model, X_test, y_test) for metric in self.metrics]\<close>:
  the first metric that raises ends it.
\<close>

fun score_all ::
  "('m, 'v) metric list \<Rightarrow> 'm \<Rightarrow> 'v ndarray \<Rightarrow> 'v ndarray \<Rightarrow> py_error + 'v list" where
  "score_all [] model X y = Inr []"
| "score_all (metric # rest) model X y =
     (case metric model X y of
        Inl e \<Rightarrow> Inl e
      | Inr score \<Rightarrow>
          (case score_all rest model X y of
             Inl e \<Rightarrow> Inl e
           | Inr scores \<Rightarrow> Inr (score # scores)))"

definition get_scores ::
  "('s, 'v::linorder, 'm, 'fi, 'g) collaborators \<Rightarrow> ('s, 'v, 'm, 'fi) Model_Pipeline
     \<Rightarrow> ('s, 'v) frame \<Rightarrow> string \<Rightarrow> fold_ind
     \<Rightarrow> py_error + ('s, 'v, 'm, 'fi) Model_Pipeline \<times> 'v list" where
  "get_scores env self test_data eval_type fold_ind =
     (case get_X_y self test_data of
        Inl e \<Rightarrow> Inl e
      | Inr (X_test, y_test) \<Rightarrow>
          (case add_raw_preds env self X_test y_test (f_index test_data) eval_type fold_ind of
             Inl e \<Rightarrow> Inl e
           | Inr self' \<Rightarrow>
               (case Model self' of
                  None \<Rightarrow> Inl AttributeError
                | Some model \<Rightarrow>
                    (case score_all (metrics self') model X_test y_test of
                       Inl e \<Rightarrow> Inl e
                     | Inr scores \<Rightarrow> Inr (self', scores)))))"

subsection \<open>\<open>Test\<close>\<close>

text \<open>
  What \<open>Test\<close> returns: four values under the fold index \<open>'test'\<close>, two otherwise.
\<close>

datatype ('s, 'v, 'fi) test_return =
    Final "'v train_scores" "'v list" "('s, 'v) ledger" "'fi list"
  | PerFold "'v train_scores" "'v list"

definition Test ::
  "('s, 'v::linorder, 'm, 'fi, 'g) collaborators \<Rightarrow> ('s, 'v, 'm, 'fi) Model_Pipeline
     \<Rightarrow> ('s, 'v) frame \<Rightarrow> 's list \<Rightarrow> 's list \<Rightarrow> fold_ind
     \<Rightarrow> py_error + ('s, 'v, 'm, 'fi) Model_Pipeline \<times> ('s, 'v, 'fi) test_return" where
  "Test env self data train_subjects0 test_subjects0 fold_ind =
     (let train_subjects = get_subjects_overlap self train_subjects0;
          test_subjects = get_subjects_overlap self test_subjects0
      in
      case getitem_cols data (mp_all_keys self) of
        Inl e \<Rightarrow> Inl e
      | Inr data1 \<Rightarrow>
      (let self1 =
             (if fold_ind = FinalTest then
                (if compute_train_score self
                 then init_raw_preds_df self (train_subjects @ test_subjects)
                 else init_raw_preds_df self test_subjects)
              else self)
       in
       case loc_rows data1 train_subjects of
         Inl e \<Rightarrow> Inl e
       | Inr train_data \<Rightarrow>
       (case loc_rows data1 test_subjects of
          Inl e \<Rightarrow> Inl e
        | Inr test_data \<Rightarrow>
        (case get_final_model env train_data of
           Inl e \<Rightarrow> Inl e
         | Inr model \<Rightarrow>
         (case train_model env (self1\<lparr>Model := Some model\<rparr>) train_data of
            Inl e \<Rightarrow> Inl e
          | Inr self2 \<Rightarrow>
          (case proc_feat_importance env self2 train_data test_data fold_ind of
             Inl e \<Rightarrow> Inl e
           | Inr self3 \<Rightarrow>
           (case (if compute_train_score self3 then
                    (case get_scores env self3 train_data ''train_'' fold_ind of
                       Inl e \<Rightarrow> Inl e
                     | Inr (self4, scores) \<Rightarrow> Inr (self4, ScoreArray scores))
                  else Inr (self3, Zero)) of
              Inl e \<Rightarrow> Inl e
            | Inr (self4, train_scores) \<Rightarrow>
            (case get_scores env self4 test_data [] fold_ind of
               Inl e \<Rightarrow> Inl e
             | Inr (self5, scores) \<Rightarrow>
                 if fold_ind = FinalTest
                 then Inr (self5, Final train_scores scores (raw_preds_df self5)
                                    (feat_importances self5))
                 else Inr (self5, PerFold train_scores scores)))))))))"

subsection \<open>\<open>_get_eval_splits\<close> and \<open>Evaluate\<close>\<close>

definition get_eval_splits ::
  "('s, 'v, 'm, 'fi, 'g) collaborators \<Rightarrow> ('s, 'v, 'm, 'fi) Model_Pipeline \<Rightarrow> 's list \<Rightarrow> nat
     \<Rightarrow> nat \<Rightarrow> 'g option
     \<Rightarrow> py_error + ('s, 'v, 'm, 'fi) Model_Pipeline \<times> ('s list \<times> 's list) list" where
  "get_eval_splits env self train_subjects splits n_repeats splits_vals =
     (case splits_vals of
        None \<Rightarrow>
          (case repeated_k_fold env train_subjects n_repeats splits of
             Inl e \<Rightarrow> Inl e
           | Inr subject_splits \<Rightarrow> Inr (self\<lparr>n_splits := Some splits\<rparr>, subject_splits))
      | Some vals \<Rightarrow>
          (case get_num_groups env train_subjects vals of
             Inl e \<Rightarrow> Inl e
           | Inr n \<Rightarrow>
               (case repeated_leave_one_group_out env train_subjects n_repeats vals of
                  Inl e \<Rightarrow> Inl e
                | Inr subject_splits \<Rightarrow> Inr (self\<lparr>n_splits := Some n\<rparr>, subject_splits))))"

text \<open>
  The loop over the splits, with \<open>fold_ind\<close> and the two lists of scores as
  accumulators. The verbosity lines read \<open>scores[i]\<close> (and \<open>train_scores[i]\<close> when
  train scores are computed) for every \<open>i\<close> in \<open>range(len(self.metric_strs))\<close>.
\<close>

fun eval_folds ::
  "('s, 'v::linorder, 'm, 'fi, 'g) collaborators \<Rightarrow> ('s, 'v) frame
     \<Rightarrow> ('s list \<times> 's list) list \<Rightarrow> nat
     \<Rightarrow> ('s, 'v, 'm, 'fi) Model_Pipeline \<times> 'v train_scores list \<times> 'v list list
     \<Rightarrow> py_error + ('s, 'v, 'm, 'fi) Model_Pipeline \<times> 'v train_scores list \<times> 'v list list"
  where
  "eval_folds env data [] fold_ind acc = Inr acc"
| "eval_folds env data ((train_subjects, test_subjects) # rest) fold_ind
     (self, all_train_scores, all_scores) =
     (let self1 = self\<lparr>n_test_per_fold := n_test_per_fold self @ [length test_subjects]\<rparr> in
      case fold_and_repeat self1 (Fold fold_ind) of
        Inl e \<Rightarrow> Inl e
      | Inr names \<Rightarrow>
      (case Test env self1 data train_subjects test_subjects (Fold fold_ind) of
         Inl e \<Rightarrow> Inl e
       | Inr (self2, Final train_scores scores df fis) \<Rightarrow> Inl ValueError
       | Inr (self2, PerFold train_scores scores) \<Rightarrow>
           if compute_train_score self2 \<and>
              (case train_scores of Zero \<Rightarrow> True
               | ScoreArray ts \<Rightarrow> length ts < length (metric_strs self2))
           then Inl IndexError
           else if length scores < length (metric_strs self2) then Inl IndexError
           else eval_folds env data rest (fold_ind + 1)
                  (self2, all_train_scores @ [train_scores], all_scores @ [scores])))"

text \<open>The closing loop \<open>for feat_imp in self.feat_importances: feat_imp.set_final_local()\<close>.\<close>

fun set_final_locals ::
  "('s, 'v, 'm, 'fi, 'g) collaborators \<Rightarrow> 'fi list \<Rightarrow> py_error + 'fi list" where
  "set_final_locals env [] = Inr []"
| "set_final_locals env (feat_imp # rest) =
     (case set_final_local env feat_imp of
        Inl e \<Rightarrow> Inl e
      | Inr feat_imp' \<Rightarrow>
          (case set_final_locals env rest of
             Inl e \<Rightarrow> Inl e
           | Inr rest' \<Rightarrow> Inr (feat_imp' # rest')))"

definition Evaluate ::
  "('s, 'v::linorder, 'm, 'fi, 'g) collaborators \<Rightarrow> ('s, 'v, 'm, 'fi) Model_Pipeline
     \<Rightarrow> ('s, 'v) frame \<Rightarrow> 's list \<Rightarrow> nat \<Rightarrow> nat \<Rightarrow> 'g option
     \<Rightarrow> py_error + ('s, 'v, 'm, 'fi) Model_Pipeline
           \<times> ('v train_scores list \<times> 'v list list \<times> ('s, 'v) ledger \<times> 'fi list)" where
  "Evaluate env self data train_subjects0 splits n_repeats splits_vals =
     (let train_subjects = get_subjects_overlap self train_subjects0;
          self1 = init_raw_preds_df self train_subjects
      in
      case get_eval_splits env self1 train_subjects splits n_repeats splits_vals of
        Inl e \<Rightarrow> Inl e
      | Inr (self2, subject_splits) \<Rightarrow>
      (case eval_folds env data subject_splits 0 (self2\<lparr>n_test_per_fold := []\<rparr>, [], []) of
         Inl e \<Rightarrow> Inl e
       | Inr (self3, all_train_scores, all_scores) \<Rightarrow>
       (case set_final_locals env (feat_importances self3) of
          Inl e \<Rightarrow> Inl e
        | Inr fis \<Rightarrow>
            Inr (self3\<lparr>feat_importances := fis\<rparr>,
                 (all_train_scores, all_scores, raw_preds_df self3, fis)))))"

section \<open>Concrete inputs\<close>

text \<open>
  A table of four subjects with two features, a stratification column and a binary
  target; a pipeline object with two metrics; and collaborators that always succeed:
  a model that counts its fits, predicts \<open>0\<close> for every row and has no
  \<open>predict_proba\<close>, a 2-fold generator, and metrics that return constants.
\<close>

definition data0 :: "(nat, int) frame" where
  "data0 = \<lparr>f_columns = [''age'', ''thick'', ''site'', ''y''],
            f_rows = [(1, [30, 5, 0, 1]), (2, [40, 6, 1, 0]), (3, [50, 7, 0, 1]),
                      (4, [60, 8, 1, 0])]\<rparr>"

definition metric1 :: "(nat, int) metric" where
  "metric1 model X y = Inr 1"

definition metric2 :: "(nat, int) metric" where
  "metric2 model X y = Inr 2"

definition predict0 :: "nat \<Rightarrow> int ndarray \<Rightarrow> py_error + int ndarray" where
  "predict0 model X =
     (case X of Arr2 n rows \<Rightarrow> Inr (Arr1 (map (\<lambda>r. 0) rows)) | _ \<Rightarrow> Inl ValueError)"

definition k_fold0 :: "nat list \<Rightarrow> nat \<Rightarrow> nat \<Rightarrow> py_error + (nat list \<times> nat list) list" where
  "k_fold0 subjects n_repeats splits =
     (if n_repeats = 1 \<and> splits = 2
      then Inr [(drop (length subjects div 2) subjects, take (length subjects div 2) subjects),
                (take (length subjects div 2) subjects, drop (length subjects div 2) subjects)]
      else Inl (OtherError ''unsupported''))"

definition env0 :: "(nat, int, nat, unit, unit) collaborators" where
  "env0 = \<lparr>is_search = True,
           search_wrapped_pipeline = (\<lambda>index. Inr 0),
           fit = (\<lambda>model X y. Inr (Suc model)),
           show_best_params = (\<lambda>model. None),
           predict_proba = (\<lambda>model X. Inl AttributeError),
           predict = predict0,
           proc_importances = (\<lambda>fis model train_data test_data fold_ind. Inr fis),
           set_final_local = (\<lambda>feat_imp. Inr feat_imp),
           repeated_k_fold = k_fold0,
           get_num_groups = (\<lambda>subjects vals. Inr 2),
           repeated_leave_one_group_out = (\<lambda>subjects n_repeats vals. k_fold0 subjects n_repeats 2),
           proc_type_dep_str = (\<lambda>strs. Inr strs),
           get_metric = (\<lambda>s. if s = ''m1'' then Inr metric1 else if s = ''m2'' then Inr metric2
                               else Inl KeyError),
           str_float = str_int\<rparr>"

definition pipeline0 :: "(nat, int, nat, unit) Model_Pipeline" where
  "pipeline0 = \<lparr>ps_final_subjects = None,
                ps_target = Str ''y'',
                compute_train_score = False,
                mp_all_keys = [''age'', ''thick'', ''y''],
                metric_strs = [''m1'', ''m2''],
                metrics = [metric1, metric2],
                feat_importances = process_feat_importances (Some (Str ''base'')),
                n_splits = None,
                n_test_per_fold = [],
                raw_preds_df = \<lparr>l_index = [], l_columns = [], l_cells = []\<rparr>,
                classes = [],
                Model = None\<rparr>"

text \<open>A collaborator set whose estimator cannot be fitted.\<close>

definition env_fit_fails :: "(nat, int, nat, unit, unit) collaborators" where
  "env_fit_fails = env0\<lparr>fit := (\<lambda>model X y. Inl (OtherError ''fit''))\<rparr>"



section \<open>Scope resolution: the keys at the end\<close>









section \<open>The ledger: what a write changes\<close>

lemma loc_set_index:
  "loc_set df subjects col vals = Inr df' \<Longrightarrow> l_index df' = l_index df"
  by (auto simp: loc_set_def split: if_splits)

lemma loc_set_other_subject:
  assumes "loc_set df subjects col vals = Inr df'" and "s \<notin> set subjects"
  shows "cell_at df' s c = cell_at df s c"
proof -
  have "(s, c) \<notin> fst ` set (rev (zip (map (\<lambda>s. (s, col)) subjects) vals))"
    using assms(2) by (auto dest!: set_zip_leftD)
  then have "map_of (rev (zip (map (\<lambda>s. (s, col)) subjects) vals)) (s, c) = None"
    by (simp add: map_of_eq_None_iff)
  with assms(1) show ?thesis
    by (auto simp: loc_set_def cell_at_def map_add_def split: if_splits)
qed

lemma loc_set_other_column:
  assumes "loc_set df subjects col vals = Inr df'" and "c \<noteq> col"
  shows "cell_at df' s c = cell_at df s c"
proof -
  have "(s, c) \<notin> fst ` set (rev (zip (map (\<lambda>s. (s, col)) subjects) vals))"
    using assms(2) by (auto dest!: set_zip_leftD)
  then have "map_of (rev (zip (map (\<lambda>s. (s, col)) subjects) vals)) (s, c) = None"
    by (simp add: map_of_eq_None_iff)
  with assms(1) show ?thesis
    by (auto simp: loc_set_def cell_at_def map_add_def split: if_splits)
qed

lemma map_of_zip_replicate:
  "k \<in> set ks \<Longrightarrow> map_of (rev (zip ks (replicate (length ks) v))) k = Some v"
proof -
  assume k: "k \<in> set ks"
  have "set (rev (zip ks (replicate (length ks) v))) = (\<lambda>x. (x, v)) ` set ks"
    by (induction ks) auto
  then have "map_of (rev (zip ks (replicate (length ks) v))) k \<in> {None, Some v}"
    by (cases "map_of (rev (zip ks (replicate (length ks) v))) k") (auto dest!: map_of_SomeD)
  moreover have "k \<in> fst ` set (rev (zip ks (replicate (length ks) v)))"
    using k by (force simp: set_zip in_set_conv_nth)
  then have "map_of (rev (zip ks (replicate (length ks) v))) k \<noteq> None"
    by (simp add: map_of_eq_None_iff)
  ultimately show ?thesis by auto
qed

lemma loc_set_scalar_written:
  assumes "loc_set_scalar df subjects col v = Inr df'" and "s \<in> set subjects"
  shows "cell_at df' s col = Some v"
proof -
  have "map_of (rev (zip (map (\<lambda>s. (s, col)) subjects)
                  (replicate (length (map (\<lambda>s. (s, col)) subjects)) v))) (s, col) = Some v"
    by (rule map_of_zip_replicate) (use assms(2) in auto)
  with assms(1) show ?thesis
    by (auto simp: loc_set_scalar_def loc_set_def cell_at_def map_add_def split: if_splits)
qed

lemma set_class_columns_index:
  "set_class_columns env cls subjects pred_col i cols df = Inr df' \<Longrightarrow> l_index df' = l_index df"
  by (induction cols arbitrary: i df) (auto split: if_splits sum.splits dest: loc_set_index)

lemma set_class_columns_other_subject:
  "set_class_columns env cls subjects pred_col i cols df = Inr df' \<Longrightarrow> s \<notin> set subjects
     \<Longrightarrow> cell_at df' s c = cell_at df s c"
  by (induction cols arbitrary: i df)
     (auto split: if_splits sum.splits dest: loc_set_other_subject)

lemma set_true_columns_index:
  "set_true_columns subjects ts i n rows df = Inr df' \<Longrightarrow> l_index df' = l_index df"
  by (induction ts arbitrary: i df) (auto split: if_splits sum.splits dest: loc_set_index)

lemma set_true_columns_other_subject:
  "set_true_columns subjects ts i n rows df = Inr df' \<Longrightarrow> s \<notin> set subjects
     \<Longrightarrow> cell_at df' s c = cell_at df s c"
  by (induction ts arbitrary: i df)
     (auto split: if_splits sum.splits dest: loc_set_other_subject)

lemma set_true_columns_other_column:
  "set_true_columns subjects ts i n rows df = Inr df' \<Longrightarrow> c \<notin> set ts
     \<Longrightarrow> cell_at df' s c = cell_at df s c"
  by (induction ts arbitrary: i df)
     (auto split: if_splits sum.splits dest: loc_set_other_column)

lemma add_prob_preds_index:
  "add_prob_preds env self X subjects pred_col = Inr df \<Longrightarrow> l_index df = l_index (raw_preds_df self)"
  by (auto simp: add_prob_preds_def split: option.splits sum.splits if_splits ndarray.splits
      dest: loc_set_index set_class_columns_index)

lemma add_prob_preds_other_subject:
  "add_prob_preds env self X subjects pred_col = Inr df \<Longrightarrow> s \<notin> set subjects
     \<Longrightarrow> cell_at df s c = cell_at (raw_preds_df self) s c"
  by (auto simp: add_prob_preds_def split: option.splits sum.splits if_splits ndarray.splits
      dest: loc_set_other_subject set_class_columns_other_subject)

lemma add_point_preds_index:
  "add_point_preds env self X subjects pred_col = Inr df \<Longrightarrow> l_index df = l_index (raw_preds_df self)"
  by (auto simp: add_point_preds_def split: option.splits sum.splits if_splits ndarray.splits
      dest: loc_set_index set_class_columns_index)

lemma add_point_preds_other_subject:
  "add_point_preds env self X subjects pred_col = Inr df \<Longrightarrow> s \<notin> set subjects
     \<Longrightarrow> cell_at df s c = cell_at (raw_preds_df self) s c"
  by (auto simp: add_point_preds_def split: option.splits sum.splits if_splits ndarray.splits
      dest: loc_set_other_subject set_class_columns_other_subject)

lemma add_true_values_index:
  "add_true_values self y subjects df = Inr df' \<Longrightarrow> l_index df' = l_index df"
  by (auto simp: add_true_values_def split: ndarray.splits str_or_list.splits list.splits
      dest: loc_set_index set_true_columns_index)

section \<open>What the per-fold steps change\<close>

lemma add_raw_preds_to_fold_tag_frame:
  assumes "add_raw_preds_to_fold_tag env self X y subjects eval_type fold_ind = Inr self'"
  shows "self' = self\<lparr>classes := observed_classes y, raw_preds_df := raw_preds_df self'\<rparr>"
    and "l_index (raw_preds_df self') = l_index (raw_preds_df self)"
  using assms
  by (auto simp: add_raw_preds_to_fold_tag_def Let_def loc_set_scalar_def
      split: sum.splits prod.splits
      dest!: add_prob_preds_index add_point_preds_index loc_set_index)

lemma add_raw_preds_frame:
  assumes "add_raw_preds env self X y subjects eval_type fold_ind = Inr self'"
  shows "self' = self\<lparr>classes := observed_classes y, raw_preds_df := raw_preds_df self'\<rparr>"
    and "l_index (raw_preds_df self') = l_index (raw_preds_df self)"
proof -
  from assms obtain self3 df4 where
    a: "add_raw_preds_to_fold_tag env self X y subjects eval_type fold_ind = Inr self3"
    and b: "add_true_values self3 y subjects (raw_preds_df self3) = Inr df4"
    and c: "self' = self3\<lparr>raw_preds_df := df4\<rparr>"
    by (auto simp: add_raw_preds_def split: sum.splits)
  have r: "raw_preds_df self' = df4" using c by simp
  note f = add_raw_preds_to_fold_tag_frame [OF a]
  have "self3\<lparr>raw_preds_df := df4\<rparr>
          = (self\<lparr>classes := observed_classes y, raw_preds_df := raw_preds_df self3\<rparr>)
              \<lparr>raw_preds_df := df4\<rparr>"
    by (rule arg_cong [where f = "\<lambda>s. s\<lparr>raw_preds_df := df4\<rparr>", OF f(1)])
  then show "self' = self\<lparr>classes := observed_classes y, raw_preds_df := raw_preds_df self'\<rparr>"
    using c r by simp
  show "l_index (raw_preds_df self') = l_index (raw_preds_df self)"
    using f(2) add_true_values_index [OF b] r by simp
qed

lemma get_scores_frame:
  assumes "get_scores env self data eval_type fold_ind = Inr (self', scores)"
  shows "\<exists>X y. get_X_y self data = Inr (X, y)
           \<and> self' = self\<lparr>classes := observed_classes y, raw_preds_df := raw_preds_df self'\<rparr>"
    and "l_index (raw_preds_df self') = l_index (raw_preds_df self)"
  using assms
  by (auto simp: get_scores_def split: sum.splits prod.splits option.splits
      dest: add_raw_preds_frame)

lemma score_all_length:
  "score_all ms model X y = Inr scores \<Longrightarrow> length scores = length ms"
  by (induction ms arbitrary: scores) (auto split: sum.splits)

lemma score_all_nth:
  "score_all ms model X y = Inr scores \<Longrightarrow> i < length ms \<Longrightarrow> (ms ! i) model X y = Inr (scores ! i)"
proof (induction ms arbitrary: scores i)
  case Nil
  then show ?case by simp
next
  case (Cons m ms)
  then show ?case by (cases i) (auto split: sum.splits)
qed

lemma score_all_total:
  "(\<And>m. m \<in> set ms \<Longrightarrow> \<exists>v. m model X y = Inr v) \<Longrightarrow> \<exists>scores. score_all ms model X y = Inr scores"
proof (induction ms)
  case Nil
  then show ?case by simp
next
  case (Cons m ms)
  then obtain v where "m model X y = Inr v" by (meson list.set_intros(1))
  moreover from Cons obtain scores where "score_all ms model X y = Inr scores"
    by (meson list.set_intros(2))
  ultimately show ?case by simp
qed

lemma get_scores_length:
  assumes "get_scores env self data eval_type fold_ind = Inr (self', scores)"
  shows "length scores = length (metrics self)"
proof -
  from assms obtain X y s1 model where
    a: "add_raw_preds env self X y (f_index data) eval_type fold_ind = Inr s1"
    and b: "score_all (metrics s1) model X y = Inr scores"
    by (auto simp: get_scores_def split: sum.splits prod.splits option.splits)
  have "metrics s1 = metrics self"
    using add_raw_preds_frame(1) [OF a] by (metis Model_Pipeline.select_convs(6) Model_Pipeline.surjective Model_Pipeline.update_convs(10) Model_Pipeline.update_convs(11))
  with score_all_length [OF b] show ?thesis by simp
qed

lemma train_model_frame:
  "train_model env self train_data = Inr self' \<Longrightarrow> \<exists>fitted. self' = self\<lparr>Model := Some fitted\<rparr>"
  by (auto simp: train_model_def split: sum.splits prod.splits option.splits)

lemma proc_feat_importance_frame:
  "proc_feat_importance env self tr te fold_ind = Inr self'
     \<Longrightarrow> self' = self\<lparr>feat_importances := feat_importances self'\<rparr>
         \<and> (feat_importances self = [] \<longrightarrow> self' = self)"
  by (auto simp: proc_feat_importance_def split: sum.splits option.splits if_splits)

lemma add_raw_preds_fields:
  assumes "add_raw_preds env self X y subjects eval_type fold_ind = Inr self'"
  shows "classes self' = observed_classes y" and "metrics self' = metrics self"
    and "metric_strs self' = metric_strs self"
    and "compute_train_score self' = compute_train_score self"
    and "feat_importances self' = feat_importances self"
    and "n_splits self' = n_splits self" and "Model self' = Model self"
    and "ps_target self' = ps_target self" and "ps_final_subjects self' = ps_final_subjects self"
    and "mp_all_keys self' = mp_all_keys self" and "n_test_per_fold self' = n_test_per_fold self"
proof -
  define d where "d = raw_preds_df self'"
  have eq: "self' = self\<lparr>classes := observed_classes y, raw_preds_df := d\<rparr>"
    using add_raw_preds_frame(1) [OF assms] unfolding d_def .
  show "classes self' = observed_classes y" and "metrics self' = metrics self"
    and "metric_strs self' = metric_strs self"
    and "compute_train_score self' = compute_train_score self"
    and "feat_importances self' = feat_importances self"
    and "n_splits self' = n_splits self" and "Model self' = Model self"
    and "ps_target self' = ps_target self" and "ps_final_subjects self' = ps_final_subjects self"
    and "mp_all_keys self' = mp_all_keys self" and "n_test_per_fold self' = n_test_per_fold self"
    by (simp_all add: eq)
qed

lemma get_scores_fields:
  assumes "get_scores env self data eval_type fold_ind = Inr (self', scores)"
  shows "metrics self' = metrics self"
    and "metric_strs self' = metric_strs self"
    and "compute_train_score self' = compute_train_score self"
    and "feat_importances self' = feat_importances self"
    and "n_splits self' = n_splits self" and "Model self' = Model self"
    and "ps_target self' = ps_target self" and "ps_final_subjects self' = ps_final_subjects self"
    and "mp_all_keys self' = mp_all_keys self" and "n_test_per_fold self' = n_test_per_fold self"
    and "l_index (raw_preds_df self') = l_index (raw_preds_df self)"
    and "length scores = length (metrics self)"
proof -
  from assms obtain X y model where
    a: "add_raw_preds env self X y (f_index data) eval_type fold_ind = Inr self'"
    and b: "score_all (metrics self') model X y = Inr scores"
    by (auto simp: get_scores_def split: sum.splits prod.splits option.splits)
  note f = add_raw_preds_fields [OF a]
  show "metrics self' = metrics self"
    and "metric_strs self' = metric_strs self"
    and "compute_train_score self' = compute_train_score self"
    and "feat_importances self' = feat_importances self"
    and "n_splits self' = n_splits self" and "Model self' = Model self"
    and "ps_target self' = ps_target self" and "ps_final_subjects self' = ps_final_subjects self"
    and "mp_all_keys self' = mp_all_keys self" and "n_test_per_fold self' = n_test_per_fold self"
    by (rule f)+
  show "l_index (raw_preds_df self') = l_index (raw_preds_df self)"
    by (rule add_raw_preds_frame(2) [OF a])
  show "length scores = length (metrics self)"
    using score_all_length [OF b] f(2) by simp
qed

lemma Test_steps:
  assumes "Test env self data tr te fold_ind = Inr (self', r)"
  obtains data1 train_data test_data model self1 self2 self3 self4 train_scores scores where
    "getitem_cols data (mp_all_keys self) = Inr data1"
    "self1 = (if fold_ind = FinalTest then
                (if compute_train_score self
                 then init_raw_preds_df self
                        (get_subjects_overlap self tr @ get_subjects_overlap self te)
                 else init_raw_preds_df self (get_subjects_overlap self te))
              else self)"
    "loc_rows data1 (get_subjects_overlap self tr) = Inr train_data"
    "loc_rows data1 (get_subjects_overlap self te) = Inr test_data"
    "get_final_model env train_data = Inr model"
    "train_model env (self1\<lparr>Model := Some model\<rparr>) train_data = Inr self2"
    "proc_feat_importance env self2 train_data test_data fold_ind = Inr self3"
    "if compute_train_score self3
     then \<exists>ts. get_scores env self3 train_data ''train_'' fold_ind = Inr (self4, ts)
               \<and> train_scores = ScoreArray ts
     else self4 = self3 \<and> train_scores = Zero"
    "get_scores env self4 test_data [] fold_ind = Inr (self', scores)"
    "r = (if fold_ind = FinalTest
          then Final train_scores scores (raw_preds_df self') (feat_importances self')
          else PerFold train_scores scores)"
  using assms unfolding Test_def Let_def
  by (auto split: sum.splits prod.splits if_splits)

text \<open>What a successful \<open>Test\<close> leaves unchanged, and the shape of what it returns.\<close>

lemma Test_result:
  assumes ok: "Test env self data tr te fold_ind = Inr (self', r)"
  shows "compute_train_score self' = compute_train_score self"
    and "metrics self' = metrics self"
    and "metric_strs self' = metric_strs self"
    and "n_splits self' = n_splits self"
    and "ps_target self' = ps_target self"
    and "ps_final_subjects self' = ps_final_subjects self"
    and "mp_all_keys self' = mp_all_keys self"
    and "n_test_per_fold self' = n_test_per_fold self"
    and "feat_importances self = [] \<Longrightarrow> feat_importances self' = []"
    and "l_index (raw_preds_df self') =
           (if fold_ind = FinalTest then
              (if compute_train_score self
               then get_subjects_overlap self tr @ get_subjects_overlap self te
               else get_subjects_overlap self te)
            else l_index (raw_preds_df self))"
    and "\<exists>train_scores scores.
           r = (if fold_ind = FinalTest
                then Final train_scores scores (raw_preds_df self') (feat_importances self')
                else PerFold train_scores scores)
         \<and> length scores = length (metrics self)
         \<and> (if compute_train_score self
              then \<exists>ts. train_scores = ScoreArray ts \<and> length ts = length (metrics self)
              else train_scores = Zero)"
proof -
  from ok obtain data1 train_data test_data model self1 self2 self3 self4 train_scores scores
    where s1: "self1 = (if fold_ind = FinalTest then
                (if compute_train_score self
                 then init_raw_preds_df self
                        (get_subjects_overlap self tr @ get_subjects_overlap self te)
                 else init_raw_preds_df self (get_subjects_overlap self te))
              else self)"
      and tm: "train_model env (self1\<lparr>Model := Some model\<rparr>) train_data = Inr self2"
      and pf: "proc_feat_importance env self2 train_data test_data fold_ind = Inr self3"
      and tr: "if compute_train_score self3
               then \<exists>ts. get_scores env self3 train_data ''train_'' fold_ind = Inr (self4, ts)
                         \<and> train_scores = ScoreArray ts
               else self4 = self3 \<and> train_scores = Zero"
      and gs: "get_scores env self4 test_data [] fold_ind = Inr (self', scores)"
      and r: "r = (if fold_ind = FinalTest
                   then Final train_scores scores (raw_preds_df self') (feat_importances self')
                   else PerFold train_scores scores)"
    by (rule Test_steps)
  from train_model_frame [OF tm] obtain fitted where
    s2: "self2 = self1\<lparr>Model := Some fitted\<rparr>" by auto
  define fis where "fis = feat_importances self3"
  have s3: "self3 = self2\<lparr>feat_importances := fis\<rparr>"
    and s3': "feat_importances self2 = [] \<longrightarrow> self3 = self2"
    using proc_feat_importance_frame [OF pf] unfolding fis_def by auto
  note g = get_scores_fields [OF gs]
  have s4: "compute_train_score self4 = compute_train_score self3
          \<and> metrics self4 = metrics self3 \<and> metric_strs self4 = metric_strs self3
          \<and> n_splits self4 = n_splits self3 \<and> ps_target self4 = ps_target self3
          \<and> ps_final_subjects self4 = ps_final_subjects self3
          \<and> mp_all_keys self4 = mp_all_keys self3
          \<and> n_test_per_fold self4 = n_test_per_fold self3
          \<and> feat_importances self4 = feat_importances self3
          \<and> l_index (raw_preds_df self4) = l_index (raw_preds_df self3)
          \<and> (if compute_train_score self3
              then \<exists>ts. train_scores = ScoreArray ts \<and> length ts = length (metrics self3)
              else train_scores = Zero)"
  proof (cases "compute_train_score self3")
    case True
    with tr obtain ts where t: "get_scores env self3 train_data ''train_'' fold_ind = Inr (self4, ts)"
      and ts: "train_scores = ScoreArray ts" by auto
    from get_scores_fields [OF t] ts True show ?thesis by simp
  next
    case False
    with tr show ?thesis by simp
  qed
  have base: "compute_train_score self3 = compute_train_score self"
    "metrics self3 = metrics self" "metric_strs self3 = metric_strs self"
    "n_splits self3 = n_splits self" "ps_target self3 = ps_target self"
    "ps_final_subjects self3 = ps_final_subjects self" "mp_all_keys self3 = mp_all_keys self"
    "n_test_per_fold self3 = n_test_per_fold self"
    "l_index (raw_preds_df self3) =
           (if fold_ind = FinalTest then
              (if compute_train_score self
               then get_subjects_overlap self tr @ get_subjects_overlap self te
               else get_subjects_overlap self te)
            else l_index (raw_preds_df self))"
    by (simp_all add: s3 s2 s1 init_raw_preds_df_def)
  show "compute_train_score self' = compute_train_score self"
    and "metrics self' = metrics self"
    and "metric_strs self' = metric_strs self"
    and "n_splits self' = n_splits self"
    and "ps_target self' = ps_target self"
    and "ps_final_subjects self' = ps_final_subjects self"
    and "mp_all_keys self' = mp_all_keys self"
    and "n_test_per_fold self' = n_test_per_fold self"
    and "l_index (raw_preds_df self') =
           (if fold_ind = FinalTest then
              (if compute_train_score self
               then get_subjects_overlap self tr @ get_subjects_overlap self te
               else get_subjects_overlap self te)
            else l_index (raw_preds_df self))"
    using g s4 base by simp_all
  show "feat_importances self' = []" if "feat_importances self = []"
  proof -
    have "feat_importances self2 = []" using that by (simp add: s2 s1 init_raw_preds_df_def)
    with s3' have "feat_importances self3 = []" by simp
    with g s4 show ?thesis by simp
  qed
  show "\<exists>train_scores scores.
           r = (if fold_ind = FinalTest
                then Final train_scores scores (raw_preds_df self') (feat_importances self')
                else PerFold train_scores scores)
         \<and> length scores = length (metrics self)
         \<and> (if compute_train_score self
              then \<exists>ts. train_scores = ScoreArray ts \<and> length ts = length (metrics self)
              else train_scores = Zero)"
    using r g(12) s4 base by (intro exI [of _ train_scores] exI [of _ scores]) auto
qed

section \<open>The fold loop\<close>

lemma eval_folds_result:
  assumes "eval_folds env data sp k (self, ats, as) = Inr (self', ats', as')"
  shows "compute_train_score self' = compute_train_score self
       \<and> metrics self' = metrics self
       \<and> n_splits self' = n_splits self
       \<and> l_index (raw_preds_df self') = l_index (raw_preds_df self)
       \<and> (feat_importances self = [] \<longrightarrow> feat_importances self' = [])
       \<and> (\<exists>new_t new_s. ats' = ats @ new_t \<and> as' = as @ new_s
             \<and> length new_t = length sp \<and> length new_s = length sp
             \<and> (\<forall>sc \<in> set new_s. length sc = length (metrics self))
             \<and> (\<forall>t \<in> set new_t.
                   if compute_train_score self
                   then \<exists>ts. t = ScoreArray ts \<and> length ts = length (metrics self)
                   else t = Zero))"
  using assms
proof (induction sp arbitrary: k self ats as)
  case Nil
  then show ?case by simp
next
  case (Cons split rest)
  obtain tr te where split: "split = (tr, te)" by (cases split)
  define self1 where
    "self1 = self\<lparr>n_test_per_fold := n_test_per_fold self @ [length te]\<rparr>"
  from Cons.prems obtain self2 t s where
    test: "Test env self1 data tr te (Fold k) = Inr (self2, PerFold t s)"
    and rest: "eval_folds env data rest (k + 1) (self2, ats @ [t], as @ [s])
                 = Inr (self', ats', as')"
    unfolding split self1_def
    by (auto simp: Let_def split: sum.splits prod.splits test_return.splits if_splits)
  note T = Test_result [OF test]
  note IH = Cons.IH [OF rest]
  from T(11) have shape: "length s = length (metrics self1)"
    "if compute_train_score self1
     then \<exists>ts. t = ScoreArray ts \<and> length ts = length (metrics self1) else t = Zero"
    by (auto split: if_splits)
  have f1: "compute_train_score self1 = compute_train_score self"
    "metrics self1 = metrics self" "n_splits self1 = n_splits self"
    "raw_preds_df self1 = raw_preds_df self" "feat_importances self1 = feat_importances self"
    by (simp_all add: self1_def)
  from IH obtain new_t new_s where new: "ats' = (ats @ [t]) @ new_t" "as' = (as @ [s]) @ new_s"
    "length new_t = length rest" "length new_s = length rest"
    "\<forall>sc \<in> set new_s. length sc = length (metrics self2)"
    "\<forall>t \<in> set new_t. if compute_train_score self2
         then \<exists>ts. t = ScoreArray ts \<and> length ts = length (metrics self2) else t = Zero"
    by blast
  have "ats' = ats @ (t # new_t) \<and> as' = as @ (s # new_s)
        \<and> length (t # new_t) = length (split # rest) \<and> length (s # new_s) = length (split # rest)
        \<and> (\<forall>sc \<in> set (s # new_s). length sc = length (metrics self))
        \<and> (\<forall>t \<in> set (t # new_t). if compute_train_score self
                   then \<exists>ts. t = ScoreArray ts \<and> length ts = length (metrics self)
                   else t = Zero)"
    using new shape T(1,2) f1 by auto
  then have ex: "\<exists>new_t new_s. ats' = ats @ new_t \<and> as' = as @ new_s
             \<and> length new_t = length (split # rest) \<and> length new_s = length (split # rest)
             \<and> (\<forall>sc \<in> set new_s. length sc = length (metrics self))
             \<and> (\<forall>t \<in> set new_t.
                   if compute_train_score self
                   then \<exists>ts. t = ScoreArray ts \<and> length ts = length (metrics self)
                   else t = Zero)"
    by blast
  have "compute_train_score self' = compute_train_score self
       \<and> metrics self' = metrics self
       \<and> n_splits self' = n_splits self
       \<and> l_index (raw_preds_df self') = l_index (raw_preds_df self)
       \<and> (feat_importances self = [] \<longrightarrow> feat_importances self' = [])"
    using IH T(1,2,4,9,10) f1 by simp
  with ex show ?case by blast
qed

lemma eval_folds_append:
  "eval_folds env data (pre @ rest) k acc =
     (case eval_folds env data pre k acc of
        Inl e \<Rightarrow> Inl e
      | Inr acc' \<Rightarrow> eval_folds env data rest (k + length pre) acc')"
proof (induction pre arbitrary: k acc)
  case Nil
  then show ?case by simp
next
  case (Cons split pre)
  obtain tr te where split: "split = (tr, te)" by (cases split)
  obtain self ats as where acc: "acc = (self, ats, as)" by (cases acc)
  show ?case unfolding split acc
    by (auto simp: Let_def Cons.IH split: sum.splits prod.splits test_return.splits)
qed

lemma set_final_locals_nil:
  "set_final_locals env [] = Inr []"
  by simp

lemma Evaluate_steps:
  assumes "Evaluate env self data tr splits n_repeats splits_vals = Inr (self', r)"
  obtains self2 subject_splits self3 all_train_scores all_scores fis where
    "get_eval_splits env (init_raw_preds_df self (get_subjects_overlap self tr))
       (get_subjects_overlap self tr) splits n_repeats splits_vals = Inr (self2, subject_splits)"
    "eval_folds env data subject_splits 0 (self2\<lparr>n_test_per_fold := []\<rparr>, [], [])
       = Inr (self3, all_train_scores, all_scores)"
    "set_final_locals env (feat_importances self3) = Inr fis"
    "self' = self3\<lparr>feat_importances := fis\<rparr>"
    "r = (all_train_scores, all_scores, raw_preds_df self3, fis)"
  using assms unfolding Evaluate_def Let_def
  by (auto split: sum.splits prod.splits)

lemma get_eval_splits_result:
  assumes "get_eval_splits env self subjects splits n_repeats splits_vals = Inr (self2, sp)"
  shows "\<exists>n. self2 = self\<lparr>n_splits := Some n\<rparr>
           \<and> (case splits_vals of
                 None \<Rightarrow> n = splits \<and> repeated_k_fold env subjects n_repeats splits = Inr sp
               | Some vals \<Rightarrow> get_num_groups env subjects vals = Inr n
                    \<and> repeated_leave_one_group_out env subjects n_repeats vals = Inr sp)"
  using assms by (auto simp: get_eval_splits_def split: option.splits sum.splits)

section \<open>Feature-importance records\<close>

text \<open>
  C10: whatever is passed as the feature-importance specification,
  \<open>_process_feat_importances\<close> returns the empty list, and with it as
  \<open>self.feat_importances\<close> the importance records that \<open>Test\<close> and \<open>Evaluate\<close>
  return are the empty list.
\<close>

theorem importance_records_empty:
  "process_feat_importances obj = ([] :: 'fi list)
   \<and> (\<forall>self' train_scores scores df fis.
         feat_importances self = (process_feat_importances obj :: 'fi list)
         \<longrightarrow> Test env self data train_subjects test_subjects FinalTest
               = Inr (self', Final train_scores scores df fis)
         \<longrightarrow> fis = [])
   \<and> (\<forall>self' all_train_scores all_scores df fis.
         feat_importances self = (process_feat_importances obj :: 'fi list)
         \<longrightarrow> Evaluate env self data train_subjects splits n_repeats splits_vals
               = Inr (self', (all_train_scores, all_scores, df, fis))
         \<longrightarrow> fis = [])"
proof (intro conjI allI impI)
  show nil: "process_feat_importances obj = ([] :: 'fi list)"
    by (simp add: process_feat_importances_def split: option.splits)
next
  fix self' train_scores scores df fis
  assume fi: "feat_importances self = (process_feat_importances obj :: 'fi list)"
    and ok: "Test env self data train_subjects test_subjects FinalTest
               = Inr (self', Final train_scores scores df fis)"
  have e: "feat_importances self = []"
    using fi by (simp add: process_feat_importances_def split: option.splits)
  from Test_result(9) [OF ok e] Test_result(11) [OF ok] show "fis = []" by auto
next
  fix self' all_train_scores all_scores df fis
  assume fi: "feat_importances self = (process_feat_importances obj :: 'fi list)"
    and ok: "Evaluate env self data train_subjects splits n_repeats splits_vals
               = Inr (self', (all_train_scores, all_scores, df, fis))"
  have e: "feat_importances self = []"
    using fi by (simp add: process_feat_importances_def split: option.splits)
  from ok obtain self2 subject_splits self3 ats as fis' where
    gs: "get_eval_splits env (init_raw_preds_df self (get_subjects_overlap self train_subjects))
       (get_subjects_overlap self train_subjects) splits n_repeats splits_vals
         = Inr (self2, subject_splits)"
    and ef: "eval_folds env data subject_splits 0 (self2\<lparr>n_test_per_fold := []\<rparr>, [], [])
       = Inr (self3, ats, as)"
    and fl: "set_final_locals env (feat_importances self3) = Inr fis'"
    and r: "(all_train_scores, all_scores, df, fis) = (ats, as, raw_preds_df self3, fis')"
    by (rule Evaluate_steps)
  from get_eval_splits_result [OF gs] obtain n where
    "self2 = (init_raw_preds_df self (get_subjects_overlap self train_subjects))\<lparr>n_splits := Some n\<rparr>"
    by blast
  then have "feat_importances (self2\<lparr>n_test_per_fold := []\<rparr>) = []"
    using e by (simp add: init_raw_preds_df_def)
  with eval_folds_result [OF ef] have "feat_importances self3 = []" by blast
  with fl r show "fis = []" by simp
qed

theorem importance_records_empty_witness:
  "feat_importances pipeline0 = (process_feat_importances (Some (Str ''base'')) :: unit list)
   \<and> map_sum id snd (Test env0 pipeline0 data0 [1, 2, 2] [3] FinalTest)
       = Inr (Final Zero [1, 2]
                \<lparr>l_index = [3], l_columns = [[], ''_fold'', ''y''],
                 l_cells = [((3, ''y''), Num 1), ((3, ''_fold''), Tag ''test''),
                            ((3, []), Num 0)]\<rparr> [])
   \<and> map_sum id (\<lambda>r. snd (snd (snd (snd r)))) (Evaluate env0 pipeline0 data0 [1, 2, 3, 3, 4] 2 1 None)
       = Inr []"
proof -
  have a: "feat_importances pipeline0 = (process_feat_importances (Some (Str ''base'')) :: unit list)"
    by (simp add: pipeline0_def)
  have b: "map_sum id snd (Test env0 pipeline0 data0 [1, 2, 2] [3] FinalTest)
       = Inr (Final Zero [1, 2]
                \<lparr>l_index = [3], l_columns = [[], ''_fold'', ''y''],
                 l_cells = [((3, ''y''), Num 1), ((3, ''_fold''), Tag ''test''),
                            ((3, []), Num 0)]\<rparr> [])"
    by code_simp
  have c: "\<exists>self' trs scs df. Evaluate env0 pipeline0 data0 [1, 2, 3, 3, 4] 2 1 None
             = Inr (self', (trs, scs, df, fis)) \<Longrightarrow> fis = []" for fis
    using importance_records_empty [of "Some (Str ''base'')" pipeline0 env0 data0
        "[1, 2, 3, 3, 4]" "[]" 2 1 None] a by blast
  have d: "map_sum id (\<lambda>r. fst (snd r)) (Evaluate env0 pipeline0 data0 [1, 2, 3, 3, 4] 2 1 None)
             = Inr ([Zero, Zero])"
    by code_simp
  then obtain self' trs scs df fis where
    "Evaluate env0 pipeline0 data0 [1, 2, 3, 3, 4] 2 1 None = Inr (self', (trs, scs, df, fis))"
    by (cases "Evaluate env0 pipeline0 data0 [1, 2, 3, 3, 4] 2 1 None") auto
  with c [of fis] have "map_sum id (\<lambda>r. snd (snd (snd (snd r))))
        (Evaluate env0 pipeline0 data0 [1, 2, 3, 3, 4] 2 1 None) = Inr []"
    by auto
  with a b show ?thesis by simp
qed

section \<open>Score vectors\<close>

lemma get_metrics_nth:
  "get_metrics env strs = Inr ms
     \<Longrightarrow> length ms = length strs \<and> (\<forall>i < length strs. get_metric env (strs ! i) = Inr (ms ! i))"
proof (induction strs arbitrary: ms)
  case Nil
  then show ?case by simp
next
  case (Cons s strs)
  then show ?case by (auto split: sum.splits simp: nth_Cons split: nat.splits)
qed

lemma process_metrics_result:
  assumes "process_metrics env in_metrics = Inr (strs, ms, m)"
  shows "length ms = length strs" and "ms \<noteq> []"
    and "\<forall>i < length strs. get_metric env (strs ! i) = Inr (ms ! i)"
    and "proc_type_dep_str env (conv_to_list in_metrics) = Inr strs"
proof -
  from assms have a: "proc_type_dep_str env (conv_to_list in_metrics) = Inr strs"
    and b: "get_metrics env strs = Inr ms" and c: "ms \<noteq> []"
    by (auto simp: process_metrics_def split: sum.splits list.splits)
  show "length ms = length strs" and "ms \<noteq> []"
    and "\<forall>i < length strs. get_metric env (strs ! i) = Inr (ms ! i)"
    and "proc_type_dep_str env (conv_to_list in_metrics) = Inr strs"
    using a c get_metrics_nth [OF b] by simp_all
qed

lemma get_scores_nth:
  assumes "get_scores env self data eval_type fold_ind = Inr (self', scores)"
  shows "\<exists>X y model. get_X_y self data = Inr (X, y) \<and> Model self' = Some model
           \<and> (\<forall>i < length (metrics self). (metrics self ! i) model X y = Inr (scores ! i))"
proof -
  from assms obtain X y model where
    xy: "get_X_y self data = Inr (X, y)"
    and a: "add_raw_preds env self X y (f_index data) eval_type fold_ind = Inr self'"
    and m: "Model self' = Some model"
    and b: "score_all (metrics self') model X y = Inr scores"
    by (auto simp: get_scores_def split: sum.splits prod.splits option.splits)
  have "metrics self' = metrics self" by (rule add_raw_preds_fields(2) [OF a])
  with score_all_nth [OF b] xy m show ?thesis by auto
qed

text \<open>
  C5: with the metrics that \<open>_process_metrics\<close> built from the configured metric
  names, every score vector that \<open>_get_scores\<close> returns has one score per configured
  metric, the \<open>i\<close>-th being the \<open>i\<close>-th metric applied to the fitted model and the
  fold's data; and in what \<open>Test\<close> returns, the test-side vector, and the train-side
  vector when train scores are computed, have that length.
\<close>

theorem score_vector_per_metric:
  assumes pm: "process_metrics env in_metrics = Inr (strs, ms, m)"
    and ms: "metrics self = ms"
  shows "(\<forall>data eval_type fold_ind self' scores.
            get_scores env self data eval_type fold_ind = Inr (self', scores) \<longrightarrow>
              length scores = length strs
            \<and> (\<exists>X y model. get_X_y self data = Inr (X, y) \<and> Model self' = Some model
                 \<and> (\<forall>i < length strs. \<exists>metric. get_metric env (strs ! i) = Inr metric
                        \<and> metric model X y = Inr (scores ! i))))
       \<and> (\<forall>data train_subjects test_subjects fold_ind self' r.
            Test env self data train_subjects test_subjects fold_ind = Inr (self', r) \<longrightarrow>
              (\<exists>train_scores scores.
                 r = (if fold_ind = FinalTest
                      then Final train_scores scores (raw_preds_df self') (feat_importances self')
                      else PerFold train_scores scores)
               \<and> length scores = length strs
               \<and> (compute_train_score self \<longrightarrow>
                    (\<exists>ts. train_scores = ScoreArray ts \<and> length ts = length strs))))"
proof (intro conjI allI impI)
  fix data eval_type fold_ind self' scores
  assume gs: "get_scores env self data eval_type fold_ind = Inr (self', scores)"
  note p = process_metrics_result [OF pm]
  show "length scores = length strs"
    using get_scores_fields(12) [OF gs] ms p(1) by simp
  from get_scores_nth [OF gs] obtain X y model where
    xy: "get_X_y self data = Inr (X, y)" and m: "Model self' = Some model"
    and sc: "\<forall>i < length (metrics self). (metrics self ! i) model X y = Inr (scores ! i)"
    by blast
  have "\<forall>i < length strs. \<exists>metric. get_metric env (strs ! i) = Inr metric
                        \<and> metric model X y = Inr (scores ! i)"
    using sc p(1,3) ms by auto
  with xy m show "\<exists>X y model. get_X_y self data = Inr (X, y) \<and> Model self' = Some model
                 \<and> (\<forall>i < length strs. \<exists>metric. get_metric env (strs ! i) = Inr metric
                        \<and> metric model X y = Inr (scores ! i))"
    by blast
next
  fix data train_subjects test_subjects fold_ind self' r
  assume ok: "Test env self data train_subjects test_subjects fold_ind = Inr (self', r)"
  note p = process_metrics_result [OF pm]
  from Test_result(11) [OF ok] obtain train_scores scores where
    r: "r = (if fold_ind = FinalTest
                then Final train_scores scores (raw_preds_df self') (feat_importances self')
                else PerFold train_scores scores)"
    and l: "length scores = length (metrics self)"
    and t: "if compute_train_score self
              then \<exists>ts. train_scores = ScoreArray ts \<and> length ts = length (metrics self)
              else train_scores = Zero"
    by blast
  have "length scores = length strs" using l ms p(1) by simp
  moreover have "compute_train_score self \<longrightarrow>
                    (\<exists>ts. train_scores = ScoreArray ts \<and> length ts = length strs)"
    using t ms p(1) by auto
  ultimately show "\<exists>train_scores scores.
                 r = (if fold_ind = FinalTest
                      then Final train_scores scores (raw_preds_df self') (feat_importances self')
                      else PerFold train_scores scores)
               \<and> length scores = length strs
               \<and> (compute_train_score self \<longrightarrow>
                    (\<exists>ts. train_scores = ScoreArray ts \<and> length ts = length strs))"
    using r by blast
qed

theorem score_vector_per_metric_witness:
  "process_metrics env0 (Lst [''m1'', ''m2'']) = Inr ([''m1'', ''m2''], [metric1, metric2], metric1)
   \<and> metrics (pipeline0\<lparr>compute_train_score := True\<rparr>) = [metric1, metric2]
   \<and> map_sum id (\<lambda>r. case snd r of Final t s df fis \<Rightarrow> (t, s) | PerFold t s \<Rightarrow> (t, s))
       (Test env0 (pipeline0\<lparr>compute_train_score := True\<rparr>) data0 [1, 2] [3, 4] FinalTest)
       = Inr (ScoreArray [1, 2], [1, 2])
   \<and> map_sum id snd
       (get_scores env0
          (pipeline0\<lparr>Model := Some 1,
                     raw_preds_df := \<lparr>l_index = [3, 4], l_columns = [], l_cells = []\<rparr>\<rparr>)
          \<lparr>f_columns = [''age'', ''thick'', ''y''],
           f_rows = [(3, [50, 7, 1]), (4, [60, 8, 0])]\<rparr> [] FinalTest)
       = Inr [1, 2]
   \<and> length [1, 2 :: int] = length [''m1'', ''m2'']"
proof -
  have pm: "process_metrics env0 (Lst [''m1'', ''m2''])
              = Inr ([''m1'', ''m2''], [metric1, metric2], metric1)"
    by (simp add: process_metrics_def env0_def)
  have ms: "metrics (pipeline0\<lparr>compute_train_score := True\<rparr>) = [metric1, metric2]"
    by (simp add: pipeline0_def)
  have t: "map_sum id (\<lambda>r. case snd r of Final t s df fis \<Rightarrow> (t, s) | PerFold t s \<Rightarrow> (t, s))
       (Test env0 (pipeline0\<lparr>compute_train_score := True\<rparr>) data0 [1, 2] [3, 4] FinalTest)
       = Inr (ScoreArray [1, 2], [1, 2])"
    by code_simp
  have g: "map_sum id snd
       (get_scores env0
          (pipeline0\<lparr>Model := Some 1,
                     raw_preds_df := \<lparr>l_index = [3, 4], l_columns = [], l_cells = []\<rparr>\<rparr>)
          \<lparr>f_columns = [''age'', ''thick'', ''y''],
           f_rows = [(3, [50, 7, 1]), (4, [60, 8, 0])]\<rparr> [] FinalTest)
       = Inr [1, 2]"
    by code_simp
  from t obtain self' r where
    run: "Test env0 (pipeline0\<lparr>compute_train_score := True\<rparr>) data0 [1, 2] [3, 4] FinalTest
            = Inr (self', r)"
    and r: "(case r of Final t s df fis \<Rightarrow> (t, s) | PerFold t s \<Rightarrow> (t, s))
              = (ScoreArray [1, 2], [1, 2])"
    by (cases "Test env0 (pipeline0\<lparr>compute_train_score := True\<rparr>) data0 [1, 2] [3, 4] FinalTest")
       auto
  from score_vector_per_metric [OF pm ms, THEN conjunct2, rule_format, OF run]
  obtain train_scores scores where
    "r = Final train_scores scores (raw_preds_df self') (feat_importances self')"
    "length scores = length [''m1'', ''m2'']"
    by auto
  with r have "length [1, 2 :: int] = length [''m1'', ''m2'']" by simp
  with pm ms t g show ?thesis by blast
qed

section \<open>Class labels of a fold\<close>





end
